theory Spec2Isabelle
  imports Complex_Main
begin

section \<open>Values, dictionaries, exceptions and HTTP failures\<close>

text \<open>
  The authentication core of the backend (\<^verbatim>\<open>App/services/auth_service.py\<close>,
  \<^verbatim>\<open>App/models/user.py\<close>, \<^verbatim>\<open>App/routers/auth.py\<close>,
  \<^verbatim>\<open>App/utils/config.py\<close>) as HOL functions.

  A Python \<^verbatim>\<open>str\<close> is a \<^typ>\<open>string\<close>, Python integers are \<^typ>\<open>int\<close>, instants
  (\<^verbatim>\<open>datetime\<close>) and durations (\<^verbatim>\<open>timedelta\<close>) are whole seconds in \<^typ>\<open>int\<close>,
  a \<^verbatim>\<open>float\<close> column is a \<^typ>\<open>real\<close> that is only stored and copied.
  A claims dictionary maps claim names to values; \<^verbatim>\<open>None\<close> is a value of its own.
\<close>

datatype jval = JNone | JStr string | JInt int

type_synonym pydict = "string \<rightharpoonup> jval"

text \<open>\<^verbatim>\<open>d.get(k)\<close>: the value under \<^verbatim>\<open>k\<close>, and \<^verbatim>\<open>None\<close> when the key is absent.\<close>

definition dict_get :: "pydict \<Rightarrow> string \<Rightarrow> jval" where
  "dict_get d k = (case d k of None \<Rightarrow> JNone | Some v \<Rightarrow> v)"

text \<open>
  An exception raised by a library carries the text that the library gave it; \<open>str_exc\<close>
  is \<^verbatim>\<open>str(e)\<close>. The text is never computed here: it comes from the library that raises.
\<close>

datatype py_exception = ValueError string | IntegrityError string | OverflowError string

definition str_exc :: "py_exception \<Rightarrow> string" where
  "str_exc e =
     (case e of ValueError msg \<Rightarrow> msg | IntegrityError msg \<Rightarrow> msg | OverflowError msg \<Rightarrow> msg)"

text \<open>
  How a request fails: with FastAPI's \<^verbatim>\<open>HTTPException(status_code, detail, headers)\<close>,
  with the framework's rejection of a body that does not fit the declared request model
  (status 422), or with an exception that no handler catches, which the server answers
  with status 500.
\<close>

datatype http_error =
    HTTPException (status_code: nat) (detail: string) (headers: "(string \<times> string) list")
  | RequestValidationError
  | UnhandledException py_exception

section \<open>Configuration (utils/config.py)\<close>

definition SECRET_KEY :: string where
  "SECRET_KEY = ''your-secret-key-change-this-in-production''"

definition ALGORITHM :: string where
  "ALGORITHM = ''HS256''"

definition ACCESS_TOKEN_EXPIRE_MINUTES :: int where
  "ACCESS_TOKEN_EXPIRE_MINUTES = 30"

definition timedelta_minutes :: "int \<Rightarrow> int" where
  "timedelta_minutes m = m * 60"

definition timedelta_days :: "int \<Rightarrow> int" where
  "timedelta_days d = d * 86400"

section \<open>The external libraries, as parameters\<close>

text \<open>
  PyJWT, bcrypt and the SQL engine behind SQLAlchemy are not part of the repository. The
  functions below take them as parameters, so every theorem holds for whatever the
  libraries compute.

  \<^verbatim>\<open>jwt.decode\<close> reads the system clock; the clock is its first argument here. It returns
  the payload dictionary or raises a subclass of \<^verbatim>\<open>InvalidTokenError\<close>.

  \<^verbatim>\<open>bcrypt.hashpw\<close> and \<^verbatim>\<open>bcrypt.checkpw\<close> return a value or raise (bcrypt 5 raises
  \<^verbatim>\<open>ValueError\<close> for a password of more than 72 bytes, earlier versions cut the password
  there). \<^verbatim>\<open>bcrypt.gensalt()\<close> is random: the salt drawn is an argument of \<open>set_password\<close>.

  The engine decides which exception, with which text, a refused write or query raises;
  when it refuses is written out in the section on the store.
\<close>

datatype invalid_token_error =
    DecodeError | InvalidSignatureError | ExpiredSignatureError | InvalidAlgorithmError

record jwt_lib =
  jwt_encode :: "pydict \<Rightarrow> string \<Rightarrow> string \<Rightarrow> string"
  jwt_decode :: "int \<Rightarrow> string \<Rightarrow> string \<Rightarrow> string list \<Rightarrow> invalid_token_error + pydict"

record bcrypt_lib =
  hashpw :: "string \<Rightarrow> string \<Rightarrow> py_exception + string"
  checkpw :: "string \<Rightarrow> string \<Rightarrow> py_exception + bool"

section \<open>The account row (models/user.py)\<close>

record user =
  id_col :: int
  username :: string
  email :: string
  hashed_password :: string
  full_name :: "string option"
  age :: "int option"
  weight :: "real option"
  height :: "real option"
  activity_level :: "string option"
  daily_calorie_goal :: "int option"
  created_at :: int
  is_active :: bool

text \<open>
  Both methods hand their arguments to bcrypt and catch nothing: what bcrypt raises, they
  raise.
\<close>

definition verify_password :: "bcrypt_lib \<Rightarrow> user \<Rightarrow> string \<Rightarrow> py_exception + bool" where
  "verify_password bc self password = checkpw bc password (hashed_password self)"

definition set_password :: "bcrypt_lib \<Rightarrow> user \<Rightarrow> string \<Rightarrow> string \<Rightarrow> py_exception + user" where
  "set_password bc self password salt =
     (case hashpw bc password salt of
        Inl e \<Rightarrow> Inl e
      | Inr hashed \<Rightarrow> Inr (self\<lparr>hashed_password := hashed\<rparr>))"

text \<open>
  The table is the list of its rows. \<^verbatim>\<open>db.query(User).filter(p).first()\<close> is the first
  row that satisfies \<open>p\<close>.
\<close>

definition query_first :: "(user \<Rightarrow> bool) \<Rightarrow> user list \<Rightarrow> user option" where
  "query_first p db = find p db"

section \<open>AuthService (services/auth_service.py)\<close>

record AuthService =
  secret_key :: string
  algorithm :: string
  access_token_expire_minutes :: int

definition AuthService_init :: AuthService where
  "AuthService_init =
     \<lparr>secret_key = SECRET_KEY, algorithm = ALGORITHM,
      access_token_expire_minutes = ACCESS_TOKEN_EXPIRE_MINUTES\<rparr>"

text \<open>
  The dictionary that \<open>create_access_token\<close> hands to \<^verbatim>\<open>jwt.encode\<close>. A \<^verbatim>\<open>timedelta\<close> of
  zero is falsy in Python, so \<^verbatim>\<open>if expires_delta:\<close> sends it to the default branch.
\<close>

definition to_encode :: "AuthService \<Rightarrow> pydict \<Rightarrow> int option \<Rightarrow> int \<Rightarrow> pydict" where
  "to_encode self data expires_delta utcnow =
     (let expire =
        (case expires_delta of
           Some d \<Rightarrow>
             if d \<noteq> 0 then utcnow + d
             else utcnow + timedelta_minutes (access_token_expire_minutes self)
         | None \<Rightarrow> utcnow + timedelta_minutes (access_token_expire_minutes self))
      in data(''exp'' \<mapsto> JInt expire))"

definition create_access_token ::
  "jwt_lib \<Rightarrow> AuthService \<Rightarrow> pydict \<Rightarrow> int option \<Rightarrow> int \<Rightarrow> string" where
  "create_access_token lib self data expires_delta utcnow =
     jwt_encode lib (to_encode self data expires_delta utcnow) (secret_key self) (algorithm self)"

record token_data =
  td_username :: jval
  td_user_id :: jval

definition verify_token :: "jwt_lib \<Rightarrow> AuthService \<Rightarrow> int \<Rightarrow> string \<Rightarrow> token_data option" where
  "verify_token lib self now token =
     (case jwt_decode lib now token (secret_key self) [algorithm self] of
        Inl e \<Rightarrow> None
      | Inr payload \<Rightarrow>
          (let username = dict_get payload ''sub'';
               user_id = dict_get payload ''user_id''
           in if username = JNone \<or> user_id = JNone then None
              else Some \<lparr>td_username = username, td_user_id = user_id\<rparr>))"

definition credentials_exception :: http_error where
  "credentials_exception =
     HTTPException 401 ''Could not validate credentials'' [(''WWW-Authenticate'', ''Bearer'')]"

definition get_current_user ::
  "jwt_lib \<Rightarrow> AuthService \<Rightarrow> int \<Rightarrow> string \<Rightarrow> user list \<Rightarrow> http_error + user" where
  "get_current_user lib self now token db =
     (case verify_token lib self now token of
        None \<Rightarrow> Inl credentials_exception
      | Some td \<Rightarrow>
          (case query_first (\<lambda>u. JStr (username u) = td_username td) db of
             None \<Rightarrow> Inl credentials_exception
           | Some u \<Rightarrow> if \<not> is_active u then Inl credentials_exception else Inr u))"

text \<open>
  \<open>get_current_user\<close> above is the body of the method, run on the token that its
  parameter \<^verbatim>\<open>token: str = Depends(oauth2_scheme)\<close> receives. The dependency
  \<^verbatim>\<open>oauth2_scheme = OAuth2PasswordBearer(tokenUrl="auth/login")\<close> reads the request's
  \<^verbatim>\<open>Authorization\<close> header: when the header is absent or is not of the \<^verbatim>\<open>Bearer\<close> scheme
  it answers 401 \<^verbatim>\<open>Not authenticated\<close> itself and the method is never run; otherwise it
  passes on what follows the scheme. \<open>get_current_user_dependency\<close> is the two together:
  what \<^verbatim>\<open>Depends(auth_service.get_current_user)\<close> gives a route for a request.
\<close>

datatype authorization = NoAuthorization | NotBearer string | Bearer string

definition oauth2_scheme :: "authorization \<Rightarrow> http_error + string" where
  "oauth2_scheme header =
     (case header of
        Bearer param \<Rightarrow> Inr param
      | _ \<Rightarrow> Inl (HTTPException 401 ''Not authenticated'' [(''WWW-Authenticate'', ''Bearer'')]))"

definition get_current_user_dependency ::
  "jwt_lib \<Rightarrow> AuthService \<Rightarrow> int \<Rightarrow> authorization \<Rightarrow> user list \<Rightarrow> http_error + user" where
  "get_current_user_dependency lib self now header db =
     (case oauth2_scheme header of
        Inl e \<Rightarrow> Inl e
      | Inr token \<Rightarrow> get_current_user lib self now token db)"

record user_tokens =
  ut_access_token :: string
  ut_refresh_token :: string
  ut_token_type :: string
  ut_expires_in :: int

definition create_user_tokens :: "jwt_lib \<Rightarrow> AuthService \<Rightarrow> user \<Rightarrow> int \<Rightarrow> user_tokens" where
  "create_user_tokens lib self u utcnow =
     (let access_token_expires = timedelta_minutes (access_token_expire_minutes self);
          access_token =
            create_access_token lib self
              [''sub'' \<mapsto> JStr (username u), ''user_id'' \<mapsto> JInt (id_col u)]
              (Some access_token_expires) utcnow;
          refresh_token_expires = timedelta_days 7;
          refresh_token =
            create_access_token lib self
              [''sub'' \<mapsto> JStr (username u), ''user_id'' \<mapsto> JInt (id_col u),
               ''type'' \<mapsto> JStr ''refresh'']
              (Some refresh_token_expires) utcnow
      in \<lparr>ut_access_token = access_token, ut_refresh_token = refresh_token,
          ut_token_type = ''bearer'',
          ut_expires_in = access_token_expire_minutes self * 60\<rparr>)"

section \<open>The store\<close>

text \<open>
  The default \<^verbatim>\<open>DATABASE_URL\<close> is SQLite. An \<^verbatim>\<open>Integer\<close> column holds a signed 64-bit
  number: binding a Python integer outside that range raises. The \<^verbatim>\<open>users\<close> table
  declares \<^verbatim>\<open>username\<close> and \<^verbatim>\<open>email\<close> as \<^verbatim>\<open>unique=True\<close> and \<^verbatim>\<open>id\<close> as the primary
  key. So an insert is refused when it repeats a username or an email or carries an integer
  that does not fit, and otherwise appends the row under the next key; a commit of a
  modified row writes the columns whose value changed, and is refused when one of them is
  an integer that does not fit. Which exception a refusal raises, and its text, is the
  engine's (\<open>write_exception\<close>, \<open>query_exception\<close>).
\<close>

record sql_engine =
  write_exception :: "user list \<Rightarrow> user \<Rightarrow> py_exception"
  query_exception :: "int \<Rightarrow> int \<Rightarrow> py_exception"

definition sqlite_integer :: "int \<Rightarrow> bool" where
  "sqlite_integer v \<longleftrightarrow> - (2 ^ 63) \<le> v \<and> v < 2 ^ 63"

definition integer_fits :: "int option \<Rightarrow> bool" where
  "integer_fits c = (case c of None \<Rightarrow> True | Some v \<Rightarrow> sqlite_integer v)"

definition next_id :: "user list \<Rightarrow> int" where
  "next_id db = foldr max (map id_col db) 0 + 1"

definition db_insert ::
  "sql_engine \<Rightarrow> user list \<Rightarrow> user \<Rightarrow> py_exception + (user list \<times> user)" where
  "db_insert eng db u =
     (if (\<exists>r \<in> set db. username r = username u \<or> email r = email u)
         \<or> \<not> integer_fits (age u) \<or> \<not> integer_fits (daily_calorie_goal u)
      then Inl (write_exception eng db u)
      else (let row = u\<lparr>id_col := next_id db\<rparr> in Inr (db @ [row], row)))"

definition db_write :: "user list \<Rightarrow> user \<Rightarrow> user list" where
  "db_write db u = map (\<lambda>r. if id_col r = id_col u then u else r) db"

definition db_commit ::
  "sql_engine \<Rightarrow> user list \<Rightarrow> user \<Rightarrow> user \<Rightarrow> py_exception + user list" where
  "db_commit eng db before u =
     (if (age u \<noteq> age before \<and> \<not> integer_fits (age u))
         \<or> (daily_calorie_goal u \<noteq> daily_calorie_goal before
             \<and> \<not> integer_fits (daily_calorie_goal u))
      then Inl (write_exception eng db u)
      else Inr (db_write db u))"



section \<open>Request and response models (routers/auth.py)\<close>

text \<open>
  A key of a JSON request body is absent, \<^verbatim>\<open>null\<close>, or carries a value of the declared
  type. \<open>UserCreate\<close> declares \<^verbatim>\<open>username\<close>, \<^verbatim>\<open>email\<close> and \<^verbatim>\<open>password\<close> without a
  default (required, not nullable), and the other fields as \<^verbatim>\<open>Optional\<close> with a default:
  \<^verbatim>\<open>None\<close>, except \<^verbatim>\<open>"moderate"\<close> for \<^verbatim>\<open>activity_level\<close> and \<^verbatim>\<open>2000\<close> for
  \<^verbatim>\<open>daily_calorie_goal\<close>.
\<close>

datatype 'a field = Absent | Null | Val 'a

record user_create_body =
  b_username :: "string field"
  b_email :: "string field"
  b_password :: "string field"
  b_full_name :: "string field"
  b_age :: "int field"
  b_weight :: "real field"
  b_height :: "real field"
  b_activity_level :: "string field"
  b_daily_calorie_goal :: "int field"

record UserCreate =
  uc_username :: string
  uc_email :: string
  uc_password :: string
  uc_full_name :: "string option"
  uc_age :: "int option"
  uc_weight :: "real option"
  uc_height :: "real option"
  uc_activity_level :: "string option"
  uc_daily_calorie_goal :: "int option"

definition optional_field :: "'a option \<Rightarrow> 'a field \<Rightarrow> 'a option" where
  "optional_field dflt f = (case f of Absent \<Rightarrow> dflt | Null \<Rightarrow> None | Val v \<Rightarrow> Some v)"

definition parse_UserCreate :: "user_create_body \<Rightarrow> http_error + UserCreate" where
  "parse_UserCreate b =
     (case (b_username b, b_email b, b_password b) of
        (Val u, Val e, Val p) \<Rightarrow>
          Inr \<lparr>uc_username = u, uc_email = e, uc_password = p,
               uc_full_name = optional_field None (b_full_name b),
               uc_age = optional_field None (b_age b),
               uc_weight = optional_field None (b_weight b),
               uc_height = optional_field None (b_height b),
               uc_activity_level = optional_field (Some ''moderate'') (b_activity_level b),
               uc_daily_calorie_goal = optional_field (Some 2000) (b_daily_calorie_goal b)\<rparr>
      | _ \<Rightarrow> Inl RequestValidationError)"

record UserResponse =
  ur_id :: int
  ur_username :: string
  ur_email :: string
  ur_full_name :: "string option"
  ur_age :: "int option"
  ur_weight :: "real option"
  ur_height :: "real option"
  ur_activity_level :: "string option"
  ur_daily_calorie_goal :: "int option"
  ur_is_active :: bool
  ur_created_at :: int

text \<open>\<^verbatim>\<open>response_model=UserResponse\<close> with \<^verbatim>\<open>from_attributes = True\<close>.\<close>

definition from_attributes :: "user \<Rightarrow> UserResponse" where
  "from_attributes u =
     \<lparr>ur_id = id_col u, ur_username = username u, ur_email = email u,
      ur_full_name = full_name u, ur_age = age u, ur_weight = weight u,
      ur_height = height u, ur_activity_level = activity_level u,
      ur_daily_calorie_goal = daily_calorie_goal u, ur_is_active = is_active u,
      ur_created_at = created_at u\<rparr>"

record Token =
  tk_access_token :: string
  tk_token_type :: string
  tk_user_id :: int
  tk_username :: string

record PasswordChange =
  current_password :: string
  new_password :: string

record OAuth2PasswordRequestForm =
  form_username :: string
  form_password :: string

section \<open>Endpoints (routers/auth.py)\<close>

definition auth_service :: AuthService where
  "auth_service = AuthService_init"

text \<open>
  \<open>register_user\<close>. The two existence queries read the table \<open>db\<close>; \<open>concurrent\<close> are the
  rows that other requests commit between those queries and this request's own commit
  (none in a sequential run). The handler returns its response and the table it leaves.
  The new row has no key before the insert, \<^verbatim>\<open>is_active\<close> and \<^verbatim>\<open>created_at\<close> take their
  column defaults. Hashing and the insert are inside the handler's \<^verbatim>\<open>try\<close>: whatever they
  raise is rolled back and answered as 500 with \<^verbatim>\<open>str(e)\<close> in the detail.
\<close>

definition register_user ::
  "sql_engine \<Rightarrow> bcrypt_lib \<Rightarrow> UserCreate \<Rightarrow> user list \<Rightarrow> user list \<Rightarrow> string \<Rightarrow> int
     \<Rightarrow> (http_error + UserResponse) \<times> user list" where
  "register_user eng bc user_data db concurrent salt utcnow =
     (case query_first (\<lambda>u. username u = uc_username user_data) db of
        Some existing_user \<Rightarrow>
          (Inl (HTTPException 400 ''Username already registered'' []), db @ concurrent)
      | None \<Rightarrow>
          (case query_first (\<lambda>u. email u = uc_email user_data) db of
             Some existing_email \<Rightarrow>
               (Inl (HTTPException 400 ''Email already registered'' []), db @ concurrent)
           | None \<Rightarrow>
               (let db_user =
                      \<lparr>id_col = 0, username = uc_username user_data,
                       email = uc_email user_data, hashed_password = [],
                       full_name = uc_full_name user_data, age = uc_age user_data,
                       weight = uc_weight user_data, height = uc_height user_data,
                       activity_level = uc_activity_level user_data,
                       daily_calorie_goal = uc_daily_calorie_goal user_data,
                       created_at = utcnow, is_active = True\<rparr>
                in case set_password bc db_user (uc_password user_data) salt of
                     Inl e \<Rightarrow>
                       (Inl (HTTPException 500 (''Failed to create user: '' @ str_exc e) []),
                        db @ concurrent)
                   | Inr db_user \<Rightarrow>
                       (case db_insert eng (db @ concurrent) db_user of
                          Inr (db', row) \<Rightarrow> (Inr (from_attributes row), db')
                        | Inl e \<Rightarrow>
                            (Inl (HTTPException 500
                                    (''Failed to create user: '' @ str_exc e) []),
                             db @ concurrent)))))"

text \<open>
  \<open>login_user\<close> calls \<open>verify_password\<close> outside any \<^verbatim>\<open>try\<close>: what bcrypt raises there
  is caught by no handler.
\<close>

definition login_user ::
  "jwt_lib \<Rightarrow> bcrypt_lib \<Rightarrow> OAuth2PasswordRequestForm \<Rightarrow> user list \<Rightarrow> int
     \<Rightarrow> http_error + Token" where
  "login_user lib bc form_data db utcnow =
     (case query_first (\<lambda>u. username u = form_username form_data) db of
        None \<Rightarrow>
          Inl (HTTPException 401 ''Incorrect username or password''
                 [(''WWW-Authenticate'', ''Bearer'')])
      | Some u \<Rightarrow>
          (case verify_password bc u (form_password form_data) of
             Inl e \<Rightarrow> Inl (UnhandledException e)
           | Inr verified \<Rightarrow>
               if \<not> verified
               then Inl (HTTPException 401 ''Incorrect username or password''
                           [(''WWW-Authenticate'', ''Bearer'')])
               else if \<not> is_active u then Inl (HTTPException 400 ''Inactive user'' [])
               else
                 (let access_token =
                        create_access_token lib auth_service
                          [''sub'' \<mapsto> JStr (username u), ''user_id'' \<mapsto> JInt (id_col u)]
                          None utcnow
                  in Inr \<lparr>tk_access_token = access_token, tk_token_type = ''bearer'',
                          tk_user_id = id_col u, tk_username = username u\<rparr>)))"

text \<open>
  \<open>update_user_profile\<close>: \<open>update_fields\<close> is the sequence of guarded assignments to
  \<^verbatim>\<open>current_user\<close>; a non-empty password is then hashed and the row committed, all inside
  the handler's \<^verbatim>\<open>try\<close>, whose \<^verbatim>\<open>except\<close> rolls back and answers 500.
  \<open>put_me\<close> is the route: the body is first fitted to \<open>UserCreate\<close>.
\<close>

definition update_fields :: "UserCreate \<Rightarrow> user \<Rightarrow> user" where
  "update_fields user_update current_user =
     (let u = current_user;
          u = (case uc_full_name user_update of Some v \<Rightarrow> u\<lparr>full_name := Some v\<rparr> | None \<Rightarrow> u);
          u = (case uc_age user_update of Some v \<Rightarrow> u\<lparr>age := Some v\<rparr> | None \<Rightarrow> u);
          u = (case uc_weight user_update of Some v \<Rightarrow> u\<lparr>weight := Some v\<rparr> | None \<Rightarrow> u);
          u = (case uc_height user_update of Some v \<Rightarrow> u\<lparr>height := Some v\<rparr> | None \<Rightarrow> u);
          u = (case uc_activity_level user_update of
                 Some v \<Rightarrow> u\<lparr>activity_level := Some v\<rparr> | None \<Rightarrow> u);
          u = (case uc_daily_calorie_goal user_update of
                 Some v \<Rightarrow> u\<lparr>daily_calorie_goal := Some v\<rparr> | None \<Rightarrow> u)
      in u)"

definition update_user_profile ::
  "sql_engine \<Rightarrow> bcrypt_lib \<Rightarrow> UserCreate \<Rightarrow> user \<Rightarrow> user list \<Rightarrow> string
     \<Rightarrow> (http_error + UserResponse) \<times> user list" where
  "update_user_profile eng bc user_update current_user db salt =
     (let u = update_fields user_update current_user;
          hashed = (if uc_password user_update \<noteq> []
                    then set_password bc u (uc_password user_update) salt else Inr u)
      in case hashed of
           Inl e \<Rightarrow>
             (Inl (HTTPException 500 (''Failed to update profile: '' @ str_exc e) []), db)
         | Inr u \<Rightarrow>
             (case db_commit eng db current_user u of
                Inl e \<Rightarrow>
                  (Inl (HTTPException 500 (''Failed to update profile: '' @ str_exc e) []), db)
              | Inr db' \<Rightarrow> (Inr (from_attributes u), db')))"

definition put_me ::
  "sql_engine \<Rightarrow> bcrypt_lib \<Rightarrow> user_create_body \<Rightarrow> user \<Rightarrow> user list \<Rightarrow> string
     \<Rightarrow> (http_error + UserResponse) \<times> user list" where
  "put_me eng bc body current_user db salt =
     (case parse_UserCreate body of
        Inl e \<Rightarrow> (Inl e, db)
      | Inr user_update \<Rightarrow> update_user_profile eng bc user_update current_user db salt)"

text \<open>
  \<open>change_password\<close>: the two \<open>verify_password\<close> calls and the length check come before
  the \<^verbatim>\<open>try\<close>; hashing and the commit are inside it.
\<close>

definition change_password ::
  "sql_engine \<Rightarrow> bcrypt_lib \<Rightarrow> PasswordChange \<Rightarrow> user \<Rightarrow> user list \<Rightarrow> string
     \<Rightarrow> (http_error + string) \<times> user list" where
  "change_password eng bc password_data current_user db salt =
     (case verify_password bc current_user (current_password password_data) of
        Inl e \<Rightarrow> (Inl (UnhandledException e), db)
      | Inr current_ok \<Rightarrow>
          if \<not> current_ok
          then (Inl (HTTPException 400 ''Current password is incorrect'' []), db)
          else
            (case verify_password bc current_user (new_password password_data) of
               Inl e \<Rightarrow> (Inl (UnhandledException e), db)
             | Inr same \<Rightarrow>
                 if same
                 then (Inl (HTTPException 400
                         ''New password must be different from current password'' []), db)
                 else if length (new_password password_data) < 8
                 then (Inl (HTTPException 400
                         ''New password must be at least 8 characters long'' []), db)
                 else
                   (case set_password bc current_user (new_password password_data) salt of
                      Inl e \<Rightarrow>
                        (Inl (HTTPException 500
                                (''Failed to update password: '' @ str_exc e) []), db)
                    | Inr u \<Rightarrow>
                        (case db_commit eng db current_user u of
                           Inl e \<Rightarrow>
                             (Inl (HTTPException 500
                                     (''Failed to update password: '' @ str_exc e) []), db)
                         | Inr db' \<Rightarrow> (Inr ''Password updated successfully'', db')))))"

definition delete_user_account ::
  "sql_engine \<Rightarrow> user \<Rightarrow> user list \<Rightarrow> (http_error + string) \<times> user list" where
  "delete_user_account eng current_user db =
     (let u = current_user\<lparr>is_active := False\<rparr>
      in case db_commit eng db current_user u of
           Inl e \<Rightarrow>
             (Inl (HTTPException 500 (''Failed to deactivate account: '' @ str_exc e) []), db)
         | Inr db' \<Rightarrow> (Inr ''Account deactivated successfully'', db'))"


section \<open>Test doubles\<close>

text \<open>
  Stand-ins for the libraries and a small table, to run the functions above on concrete
  inputs. \<open>test_jwt\<close> knows a handful of tokens: \<^verbatim>\<open>tok-amy\<close> carries subject
  \<^verbatim>\<open>amy\<close>, account 7 and expiry 2800, \<^verbatim>\<open>tok-amy-9\<close> the same with account 9,
  \<^verbatim>\<open>tok-zoe\<close> and \<^verbatim>\<open>tok-bob\<close> other subjects, \<^verbatim>\<open>tok-nosub\<close> and \<^verbatim>\<open>tok-noid\<close> lack a
  claim. \<open>test_bcrypt\<close> keeps a four-character salt in front of the password and, as
  bcrypt 5 does, raises for a password of more than 72 bytes; \<open>truncating_bcrypt\<close> cuts
  the password at 72 bytes instead, as earlier versions do. \<open>test_engine\<close> raises
  \<^verbatim>\<open>OverflowError\<close> for an integer that does not fit and \<^verbatim>\<open>IntegrityError\<close> otherwise.
\<close>

definition test_payload :: "string \<Rightarrow> int \<Rightarrow> pydict" where
  "test_payload name i = [''sub'' \<mapsto> JStr name, ''user_id'' \<mapsto> JInt i, ''exp'' \<mapsto> JInt 2800]"

definition test_jwt :: jwt_lib where
  "test_jwt =
     \<lparr>jwt_encode = (\<lambda>p key alg.
        case p ''sub'' of Some (JStr s) \<Rightarrow> ''tok-'' @ s | _ \<Rightarrow> ''tok''),
      jwt_decode = (\<lambda>now token key algs.
        if token = ''tok-amy'' then
          (if 2800 \<le> now then Inl ExpiredSignatureError else Inr (test_payload ''amy'' 7))
        else if token = ''tok-amy-9'' then
          (if 2800 \<le> now then Inl ExpiredSignatureError else Inr (test_payload ''amy'' 9))
        else if token = ''tok-bob'' then
          (if 2800 \<le> now then Inl ExpiredSignatureError else Inr (test_payload ''bob'' 8))
        else if token = ''tok-zoe'' then
          (if 2800 \<le> now then Inl ExpiredSignatureError else Inr (test_payload ''zoe'' 5))
        else if token = ''tok-nosub'' then Inr [''user_id'' \<mapsto> JInt 7]
        else if token = ''tok-noid'' then Inr [''sub'' \<mapsto> JStr ''amy'']
        else Inl DecodeError)\<rparr>"

definition test_bcrypt :: bcrypt_lib where
  "test_bcrypt =
     \<lparr>hashpw = (\<lambda>password salt.
        if 72 < length password then Inl (ValueError ''password too long'')
        else Inr (take 4 salt @ password)),
      checkpw = (\<lambda>password hashed.
        if 72 < length password then Inl (ValueError ''password too long'')
        else Inr (drop 4 hashed = password))\<rparr>"

definition truncating_bcrypt :: bcrypt_lib where
  "truncating_bcrypt =
     \<lparr>hashpw = (\<lambda>password salt. Inr (take 4 salt @ take 72 password)),
      checkpw = (\<lambda>password hashed. Inr (drop 4 hashed = take 72 password))\<rparr>"

definition test_engine :: sql_engine where
  "test_engine =
     \<lparr>write_exception = (\<lambda>db u.
        if integer_fits (age u) \<and> integer_fits (daily_calorie_goal u)
        then IntegrityError ''refused'' else OverflowError ''refused''),
      query_exception = (\<lambda>skip limit. OverflowError ''refused'')\<rparr>"

definition long_password :: string where
  "long_password = replicate 73 (CHR ''a'')"

definition amy :: user where
  "amy =
     \<lparr>id_col = 7, username = ''amy'', email = ''a@x.com'', hashed_password = ''saltSecret123!'',
      full_name = None, age = Some 30, weight = Some 70, height = None,
      activity_level = Some ''active'', daily_calorie_goal = Some 1800,
      created_at = 0, is_active = True\<rparr>"

definition bob :: user where
  "bob =
     \<lparr>id_col = 8, username = ''bob'', email = ''b@x.com'', hashed_password = ''saltSecret123!'',
      full_name = None, age = None, weight = None, height = None,
      activity_level = Some ''moderate'', daily_calorie_goal = Some 2000,
      created_at = 0, is_active = False\<rparr>"

definition test_db :: "user list" where
  "test_db = [amy, bob]"

definition cat :: user where
  "cat =
     \<lparr>id_col = 9, username = ''cat'', email = ''c@x.com'',
      hashed_password = ''salt'' @ replicate 72 (CHR ''a''),
      full_name = None, age = None, weight = None, height = None,
      activity_level = Some ''moderate'', daily_calorie_goal = Some 2000,
      created_at = 0, is_active = True\<rparr>"

text \<open>Requests used to run the endpoints.\<close>

definition bob_request :: UserCreate where
  "bob_request =
     \<lparr>uc_username = ''bob'', uc_email = ''b@x.com'', uc_password = ''Secret123!'',
      uc_full_name = None, uc_age = None, uc_weight = None, uc_height = None,
      uc_activity_level = Some ''moderate'', uc_daily_calorie_goal = Some 2000\<rparr>"

definition age_only_body :: user_create_body where
  "age_only_body =
     \<lparr>b_username = Absent, b_email = Absent, b_password = Absent, b_full_name = Absent,
      b_age = Val 31, b_weight = Absent, b_height = Absent, b_activity_level = Absent,
      b_daily_calorie_goal = Absent\<rparr>"

definition huge_age_request :: UserCreate where
  "huge_age_request =
     \<lparr>uc_username = ''amy'', uc_email = ''a@x.com'', uc_password = [],
      uc_full_name = None, uc_age = Some (2 ^ 63), uc_weight = None, uc_height = None,
      uc_activity_level = None, uc_daily_calorie_goal = None\<rparr>"

definition age_update_body :: user_create_body where
  "age_update_body =
     \<lparr>b_username = Val ''amy'', b_email = Val ''a@x.com'', b_password = Val ''Secret123!'',
      b_full_name = Absent, b_age = Val 31, b_weight = Absent, b_height = Absent,
      b_activity_level = Absent, b_daily_calorie_goal = Absent\<rparr>"

definition age_update_request :: UserCreate where
  "age_update_request =
     \<lparr>uc_username = ''amy'', uc_email = ''a@x.com'', uc_password = ''Secret123!'',
      uc_full_name = None, uc_age = Some 31, uc_weight = None, uc_height = None,
      uc_activity_level = Some ''moderate'', uc_daily_calorie_goal = Some 2000\<rparr>"

section \<open>Auxiliary facts\<close>

lemma query_first_None: "query_first p db = None \<longleftrightarrow> (\<forall>r \<in> set db. \<not> p r)"
  by (auto simp: query_first_def find_None_iff)

lemma query_first_Some_sat: "query_first p db = Some u \<Longrightarrow> p u \<and> u \<in> set db"
  by (auto simp: query_first_def find_Some_iff)

text \<open>Writing a row back keeps it the first match of a query it satisfied before.\<close>

lemma find_db_write:
  assumes "find P db = Some u" and "P u'" and "id_col u' = id_col u"
  shows "find P (db_write db u') = Some u'"
  using assms(1)
proof (induction db)
  case Nil
  then show ?case by simp
next
  case (Cons x xs)
  show ?case
  proof (cases "P x")
    case True
    with Cons.prems have "x = u" by simp
    with assms(2,3) show ?thesis by (simp add: db_write_def)
  next
    case False
    with Cons.prems have "find P xs = Some u" by simp
    from Cons.IH [OF this] have "find P (db_write xs u') = Some u'" .
    with False assms(2) show ?thesis by (simp add: db_write_def)
  qed
qed

text \<open>The test doubles, evaluated.\<close>

lemma test_decode_simps:
  "jwt_decode test_jwt now ''tok-amy'' k a =
     (if 2800 \<le> now then Inl ExpiredSignatureError else Inr (test_payload ''amy'' 7))"
  "jwt_decode test_jwt now ''tok-amy-9'' k a =
     (if 2800 \<le> now then Inl ExpiredSignatureError else Inr (test_payload ''amy'' 9))"
  "jwt_decode test_jwt now ''tok-bob'' k a =
     (if 2800 \<le> now then Inl ExpiredSignatureError else Inr (test_payload ''bob'' 8))"
  "jwt_decode test_jwt now ''tok-zoe'' k a =
     (if 2800 \<le> now then Inl ExpiredSignatureError else Inr (test_payload ''zoe'' 5))"
  "jwt_decode test_jwt now ''garbage'' k a = Inl DecodeError"
  "jwt_decode test_jwt now ''tok-nosub'' k a = Inr [''user_id'' \<mapsto> JInt 7]"
  "jwt_decode test_jwt now ''tok-noid'' k a = Inr [''sub'' \<mapsto> JStr ''amy'']"
  by (simp_all add: test_jwt_def)

lemma test_verify:
  "verify_token test_jwt auth_service 1000 ''tok-amy'' =
     Some \<lparr>td_username = JStr ''amy'', td_user_id = JInt 7\<rparr>"
  "verify_token test_jwt auth_service 1000 ''tok-bob'' =
     Some \<lparr>td_username = JStr ''bob'', td_user_id = JInt 8\<rparr>"
  "verify_token test_jwt auth_service 1000 ''tok-zoe'' =
     Some \<lparr>td_username = JStr ''zoe'', td_user_id = JInt 5\<rparr>"
  "verify_token test_jwt auth_service 3000 ''tok-amy'' = None"
  "verify_token test_jwt auth_service 1000 ''garbage'' = None"
  by (simp_all add: verify_token_def test_decode_simps test_payload_def dict_get_def)

lemma delete_user_account_eq:
  "delete_user_account eng u db =
     (Inr ''Account deactivated successfully'', db_write db (u\<lparr>is_active := False\<rparr>))"
  by (simp add: delete_user_account_def db_commit_def Let_def)

section \<open>Token verification\<close>

text \<open>
  What \<open>verify_token\<close> adds to \<^verbatim>\<open>jwt.decode\<close>: every \<^verbatim>\<open>InvalidTokenError\<close> becomes
  \<open>None\<close>, and so does an accepted payload whose \<open>sub\<close> or \<open>user_id\<close> is missing or
  \<^verbatim>\<open>None\<close>. Which token strings the library rejects, and why, is the library's matter.
\<close>

lemma verify_token_cases:
  "(\<forall>e. jwt_decode lib now token (secret_key self) [algorithm self] = Inl e
        \<longrightarrow> verify_token lib self now token = None)
   \<and> (\<forall>payload. jwt_decode lib now token (secret_key self) [algorithm self] = Inr payload
        \<and> (dict_get payload ''sub'' = JNone \<or> dict_get payload ''user_id'' = JNone)
        \<longrightarrow> verify_token lib self now token = None)
   \<and> (\<forall>payload. jwt_decode lib now token (secret_key self) [algorithm self] = Inr payload
        \<and> dict_get payload ''sub'' \<noteq> JNone \<and> dict_get payload ''user_id'' \<noteq> JNone
        \<longrightarrow> verify_token lib self now token =
              Some \<lparr>td_username = dict_get payload ''sub'',
                    td_user_id = dict_get payload ''user_id''\<rparr>)"
  by (simp add: verify_token_def Let_def)


section \<open>The session guard\<close>

text \<open>
  Claim C1, as the code has it. For a request whose \<^verbatim>\<open>Authorization\<close> header carries a
  bearer token, the guard returns the account exactly when the token verifies and its
  subject is the username of a stored, active account, and every failure (a token that
  does not verify, an unknown username, a deactivated account) is the same answer: status
  401, detail \<^verbatim>\<open>Could not validate credentials\<close>. In particular, once an account is
  deactivated its token is rejected with that answer while it still verifies. A request
  with no such header is answered by the framework's dependency before the method runs:
  the same status 401, but the detail \<^verbatim>\<open>Not authenticated\<close>.
\<close>

theorem get_current_user_guard:
  "(get_current_user_dependency lib self now header db = Inr u \<longleftrightarrow>
      (\<exists>token td. header = Bearer token
          \<and> verify_token lib self now token = Some td
          \<and> query_first (\<lambda>r. JStr (username r) = td_username td) db = Some u
          \<and> is_active u))
   \<and> ((\<forall>u. get_current_user_dependency lib self now header db \<noteq> Inr u)
        \<longrightarrow> (\<exists>msg. get_current_user_dependency lib self now header db =
               Inl (HTTPException 401 msg [(''WWW-Authenticate'', ''Bearer'')])))
   \<and> (\<forall>token. header = Bearer token
          \<and> (\<forall>u. get_current_user_dependency lib self now header db \<noteq> Inr u)
        \<longrightarrow> get_current_user_dependency lib self now header db =
              Inl (HTTPException 401 ''Could not validate credentials''
                     [(''WWW-Authenticate'', ''Bearer'')]))
   \<and> (\<forall>token. header = Bearer token \<and> verify_token lib self now token = None
        \<longrightarrow> get_current_user_dependency lib self now header db =
              Inl (HTTPException 401 ''Could not validate credentials''
                     [(''WWW-Authenticate'', ''Bearer'')]))
   \<and> (\<forall>token td. header = Bearer token \<and> verify_token lib self now token = Some td
          \<and> (\<forall>r \<in> set db. JStr (username r) \<noteq> td_username td)
        \<longrightarrow> get_current_user_dependency lib self now header db =
              Inl (HTTPException 401 ''Could not validate credentials''
                     [(''WWW-Authenticate'', ''Bearer'')]))
   \<and> (\<forall>token td r. header = Bearer token \<and> verify_token lib self now token = Some td
          \<and> query_first (\<lambda>r. JStr (username r) = td_username td) db = Some r
          \<and> \<not> is_active r
        \<longrightarrow> get_current_user_dependency lib self now header db =
              Inl (HTTPException 401 ''Could not validate credentials''
                     [(''WWW-Authenticate'', ''Bearer'')]))
   \<and> (header = NoAuthorization \<or> (\<exists>s. header = NotBearer s)
        \<longrightarrow> get_current_user_dependency lib self now header db =
              Inl (HTTPException 401 ''Not authenticated'' [(''WWW-Authenticate'', ''Bearer'')]))
   \<and> (\<forall>token. header = Bearer token
          \<and> get_current_user_dependency lib self now header db = Inr u
        \<longrightarrow> (\<forall>now'. verify_token lib self now' token = verify_token lib self now token
              \<longrightarrow> get_current_user_dependency lib self now' header
                      (snd (delete_user_account eng u db)) =
                    Inl (HTTPException 401 ''Could not validate credentials''
                           [(''WWW-Authenticate'', ''Bearer'')])))"
proof -
  let ?g = "get_current_user_dependency lib self now header db"
  let ?ce = "Inl (HTTPException 401 ''Could not validate credentials''
                     [(''WWW-Authenticate'', ''Bearer'')]) :: http_error + user"
  have b: "get_current_user_dependency lib self t (Bearer token) d =
             get_current_user lib self t token d" for t token d
    by (simp add: get_current_user_dependency_def oauth2_scheme_def)
  have a: "?g = Inr u \<longleftrightarrow>
      (\<exists>token td. header = Bearer token
          \<and> verify_token lib self now token = Some td
          \<and> query_first (\<lambda>r. JStr (username r) = td_username td) db = Some u
          \<and> is_active u)"
    by (cases header)
      (auto simp: get_current_user_dependency_def oauth2_scheme_def get_current_user_def
        split: option.splits if_splits)
  have c: "\<forall>token. header = Bearer token \<and> (\<forall>u. ?g \<noteq> Inr u) \<longrightarrow> ?g = ?ce"
    by (auto simp: b get_current_user_def credentials_exception_def
        split: option.splits if_splits)
  have c': "(\<forall>u. ?g \<noteq> Inr u)
        \<longrightarrow> (\<exists>msg. ?g = Inl (HTTPException 401 msg [(''WWW-Authenticate'', ''Bearer'')]))"
  proof (cases header)
    case (Bearer token)
    with c show ?thesis by blast
  qed (simp_all add: get_current_user_dependency_def oauth2_scheme_def)
  have d: "\<forall>token. header = Bearer token \<and> verify_token lib self now token = None
        \<longrightarrow> ?g = ?ce"
    by (auto simp: b get_current_user_def credentials_exception_def)
  have e: "\<forall>token td. header = Bearer token \<and> verify_token lib self now token = Some td
          \<and> (\<forall>r \<in> set db. JStr (username r) \<noteq> td_username td) \<longrightarrow> ?g = ?ce"
    by (auto simp: b get_current_user_def credentials_exception_def query_first_def
        find_Some_iff split: option.splits)
  have f: "\<forall>token td r. header = Bearer token \<and> verify_token lib self now token = Some td
          \<and> query_first (\<lambda>r. JStr (username r) = td_username td) db = Some r
          \<and> \<not> is_active r \<longrightarrow> ?g = ?ce"
    by (auto simp: b get_current_user_def credentials_exception_def)
  have g: "header = NoAuthorization \<or> (\<exists>s. header = NotBearer s)
        \<longrightarrow> ?g = Inl (HTTPException 401 ''Not authenticated''
                         [(''WWW-Authenticate'', ''Bearer'')])"
    by (auto simp: get_current_user_dependency_def oauth2_scheme_def)
  have h: "\<forall>token. header = Bearer token \<and> ?g = Inr u
        \<longrightarrow> (\<forall>now'. verify_token lib self now' token = verify_token lib self now token
              \<longrightarrow> get_current_user_dependency lib self now' header
                      (snd (delete_user_account eng u db)) = ?ce)"
  proof (intro allI impI)
    fix token now'
    assume ok: "header = Bearer token \<and> ?g = Inr u"
      and same: "verify_token lib self now' token = verify_token lib self now token"
    from ok a obtain td where td: "verify_token lib self now token = Some td"
      and q: "query_first (\<lambda>r. JStr (username r) = td_username td) db = Some u"
      by auto
    let ?u' = "u\<lparr>is_active := False\<rparr>"
    from q have "JStr (username u) = td_username td"
      by (auto simp: query_first_def find_Some_iff)
    then have "JStr (username ?u') = td_username td" by simp
    with q have "find (\<lambda>r. JStr (username r) = td_username td) (db_write db ?u') = Some ?u'"
      by (intro find_db_write) (simp_all add: query_first_def)
    with td same ok show "get_current_user_dependency lib self now' header
                      (snd (delete_user_account eng u db)) = ?ce"
      by (simp add: b get_current_user_def delete_user_account_eq query_first_def
          credentials_exception_def)
  qed
  from a c' c d e f g h show ?thesis by blast
qed

theorem get_current_user_missing_header_counterexample:
  "get_current_user_dependency test_jwt auth_service 1000 NoAuthorization test_db =
     Inl (HTTPException 401 ''Not authenticated'' [(''WWW-Authenticate'', ''Bearer'')])
   \<and> get_current_user_dependency test_jwt auth_service 1000 (Bearer ''garbage'') test_db =
     Inl (HTTPException 401 ''Could not validate credentials''
            [(''WWW-Authenticate'', ''Bearer'')])
   \<and> get_current_user_dependency test_jwt auth_service 1000 NoAuthorization test_db
     \<noteq> get_current_user_dependency test_jwt auth_service 1000 (Bearer ''garbage'') test_db"
  by (simp add: get_current_user_dependency_def oauth2_scheme_def get_current_user_def
      test_verify credentials_exception_def)

theorem get_current_user_guard_witness:
  "get_current_user_dependency test_jwt auth_service 1000 (Bearer ''tok-amy'') test_db = Inr amy
   \<and> get_current_user_dependency test_jwt auth_service 3000 (Bearer ''tok-amy'') test_db =
       Inl (HTTPException 401 ''Could not validate credentials''
              [(''WWW-Authenticate'', ''Bearer'')])
   \<and> get_current_user_dependency test_jwt auth_service 1000 (Bearer ''garbage'') test_db =
       Inl (HTTPException 401 ''Could not validate credentials''
              [(''WWW-Authenticate'', ''Bearer'')])
   \<and> get_current_user_dependency test_jwt auth_service 1000 (Bearer ''tok-zoe'') test_db =
       Inl (HTTPException 401 ''Could not validate credentials''
              [(''WWW-Authenticate'', ''Bearer'')])
   \<and> get_current_user_dependency test_jwt auth_service 1000 (Bearer ''tok-bob'') test_db =
       Inl (HTTPException 401 ''Could not validate credentials''
              [(''WWW-Authenticate'', ''Bearer'')])
   \<and> get_current_user_dependency test_jwt auth_service 1000 (Bearer ''tok-amy'')
        (snd (delete_user_account test_engine amy test_db)) =
       Inl (HTTPException 401 ''Could not validate credentials''
              [(''WWW-Authenticate'', ''Bearer'')])
   \<and> get_current_user_dependency test_jwt auth_service 1000 (NotBearer ''Basic YTpi'') test_db =
       Inl (HTTPException 401 ''Not authenticated'' [(''WWW-Authenticate'', ''Bearer'')])"
proof -
  let ?amy = "\<lparr>td_username = JStr ''amy'', td_user_id = JInt 7\<rparr>"
  let ?bob = "\<lparr>td_username = JStr ''bob'', td_user_id = JInt 8\<rparr>"
  let ?zoe = "\<lparr>td_username = JStr ''zoe'', td_user_id = JInt 5\<rparr>"
  let ?ce = "Inl (HTTPException 401 ''Could not validate credentials''
                     [(''WWW-Authenticate'', ''Bearer'')]) :: http_error + user"
  have qa: "query_first (\<lambda>r. JStr (username r) = td_username ?amy) test_db = Some amy"
    by (simp add: query_first_def test_db_def amy_def bob_def)
  have qb: "query_first (\<lambda>r. JStr (username r) = td_username ?bob) test_db = Some bob"
    by (simp add: query_first_def test_db_def amy_def bob_def)
  have qz: "\<forall>r \<in> set test_db. JStr (username r) \<noteq> td_username ?zoe"
    by (simp add: test_db_def amy_def bob_def)
  have act: "is_active amy" "\<not> is_active bob"
    by (simp_all add: amy_def bob_def)
  note t1 = get_current_user_guard
    [of test_jwt auth_service 1000 "Bearer ''tok-amy''" test_db amy test_engine]
  note t2 = get_current_user_guard
    [of test_jwt auth_service 3000 "Bearer ''tok-amy''" test_db amy test_engine]
  note t3 = get_current_user_guard
    [of test_jwt auth_service 1000 "Bearer ''garbage''" test_db amy test_engine]
  note t4 = get_current_user_guard
    [of test_jwt auth_service 1000 "Bearer ''tok-zoe''" test_db amy test_engine]
  note t5 = get_current_user_guard
    [of test_jwt auth_service 1000 "Bearer ''tok-bob''" test_db amy test_engine]
  note t6 = get_current_user_guard
    [of test_jwt auth_service 1000 "NotBearer ''Basic YTpi''" test_db amy test_engine]
  have 1: "get_current_user_dependency test_jwt auth_service 1000 (Bearer ''tok-amy'') test_db
             = Inr amy"
    using t1 [THEN conjunct1] test_verify(1) qa act(1) by blast
  have 2: "get_current_user_dependency test_jwt auth_service 3000 (Bearer ''tok-amy'') test_db
             = ?ce"
    using t2 [THEN conjunct2, THEN conjunct2, THEN conjunct2, THEN conjunct1] test_verify(4)
    by blast
  have 3: "get_current_user_dependency test_jwt auth_service 1000 (Bearer ''garbage'') test_db
             = ?ce"
    using t3 [THEN conjunct2, THEN conjunct2, THEN conjunct2, THEN conjunct1] test_verify(5)
    by blast
  have 4: "get_current_user_dependency test_jwt auth_service 1000 (Bearer ''tok-zoe'') test_db
             = ?ce"
    using t4 [THEN conjunct2, THEN conjunct2, THEN conjunct2, THEN conjunct2, THEN conjunct1]
      test_verify(3) qz
    by blast
  have 5: "get_current_user_dependency test_jwt auth_service 1000 (Bearer ''tok-bob'') test_db
             = ?ce"
    using t5 [THEN conjunct2, THEN conjunct2, THEN conjunct2, THEN conjunct2, THEN conjunct2,
        THEN conjunct1] test_verify(2) qb act(2)
    by blast
  have 6: "get_current_user_dependency test_jwt auth_service 1000 (Bearer ''tok-amy'')
        (snd (delete_user_account test_engine amy test_db)) = ?ce"
    using t1 [THEN conjunct2, THEN conjunct2, THEN conjunct2, THEN conjunct2, THEN conjunct2,
        THEN conjunct2, THEN conjunct2] 1
    by blast
  have 7: "get_current_user_dependency test_jwt auth_service 1000 (NotBearer ''Basic YTpi'')
        test_db =
       Inl (HTTPException 401 ''Not authenticated'' [(''WWW-Authenticate'', ''Bearer'')])"
    using t6 [THEN conjunct2, THEN conjunct2, THEN conjunct2, THEN conjunct2, THEN conjunct2,
        THEN conjunct2, THEN conjunct1]
    by blast
  from 1 2 3 4 5 6 7 show ?thesis by blast
qed

section \<open>The account-id claim of a token\<close>

text \<open>
  Claim C9. The session guard resolves the account from the subject claim alone. Two
  tokens that the library accepts and whose payloads agree everywhere but on the value of
  \<open>user_id\<close> (present and not \<open>None\<close> in both) give the same result; a payload without
  \<open>user_id\<close> is rejected; and the account returned is the one named by \<open>sub\<close>, whatever
  \<open>user_id\<close> says.
\<close>

theorem user_id_value_is_ignored:
  "(jwt_decode lib now t1 (secret_key self) [algorithm self] = Inr p1
      \<and> jwt_decode lib now t2 (secret_key self) [algorithm self] = Inr p2
      \<and> (\<forall>k. k \<noteq> ''user_id'' \<longrightarrow> p1 k = p2 k)
      \<and> dict_get p1 ''user_id'' \<noteq> JNone \<and> dict_get p2 ''user_id'' \<noteq> JNone
    \<longrightarrow> get_current_user lib self now t1 db = get_current_user lib self now t2 db)
   \<and> (jwt_decode lib now t1 (secret_key self) [algorithm self] = Inr p1
      \<and> dict_get p1 ''user_id'' = JNone
    \<longrightarrow> get_current_user lib self now t1 db = Inl credentials_exception)
   \<and> (jwt_decode lib now t1 (secret_key self) [algorithm self] = Inr p1
      \<and> get_current_user lib self now t1 db = Inr u
    \<longrightarrow> dict_get p1 ''sub'' = JStr (username u))"
proof (intro conjI impI)
  assume a: "jwt_decode lib now t1 (secret_key self) [algorithm self] = Inr p1
      \<and> jwt_decode lib now t2 (secret_key self) [algorithm self] = Inr p2
      \<and> (\<forall>k. k \<noteq> ''user_id'' \<longrightarrow> p1 k = p2 k)
      \<and> dict_get p1 ''user_id'' \<noteq> JNone \<and> dict_get p2 ''user_id'' \<noteq> JNone"
  then have "p1 ''sub'' = p2 ''sub''" by simp
  then have s: "dict_get p1 ''sub'' = dict_get p2 ''sub''" by (simp add: dict_get_def)
  from a s show "get_current_user lib self now t1 db = get_current_user lib self now t2 db"
    by (simp add: get_current_user_def verify_token_def Let_def)
next
  assume "jwt_decode lib now t1 (secret_key self) [algorithm self] = Inr p1
      \<and> dict_get p1 ''user_id'' = JNone"
  then show "get_current_user lib self now t1 db = Inl credentials_exception"
    by (simp add: get_current_user_def verify_token_def Let_def)
next
  assume "jwt_decode lib now t1 (secret_key self) [algorithm self] = Inr p1
      \<and> get_current_user lib self now t1 db = Inr u"
  then show "dict_get p1 ''sub'' = JStr (username u)"
    by (auto simp: get_current_user_def verify_token_def Let_def
        split: option.splits if_splits dest!: query_first_Some_sat)
qed

theorem user_id_value_is_ignored_witness:
  "get_current_user test_jwt auth_service 1000 ''tok-amy'' test_db
     = get_current_user test_jwt auth_service 1000 ''tok-amy-9'' test_db
   \<and> get_current_user test_jwt auth_service 1000 ''tok-amy-9'' test_db = Inr amy
   \<and> id_col amy = 7
   \<and> dict_get (test_payload ''amy'' 9) ''user_id'' = JInt 9
   \<and> get_current_user test_jwt auth_service 1000 ''tok-noid'' test_db = Inl credentials_exception"
proof -
  have d: "jwt_decode test_jwt 1000 ''tok-amy'' (secret_key auth_service) [algorithm auth_service]
             = Inr (test_payload ''amy'' 7)"
      "jwt_decode test_jwt 1000 ''tok-amy-9'' (secret_key auth_service) [algorithm auth_service]
             = Inr (test_payload ''amy'' 9)"
      "jwt_decode test_jwt 1000 ''tok-noid'' (secret_key auth_service) [algorithm auth_service]
             = Inr [''sub'' \<mapsto> JStr ''amy'']"
    by (simp_all add: test_decode_simps)
  have k: "\<forall>k. k \<noteq> ''user_id'' \<longrightarrow> test_payload ''amy'' 7 k = test_payload ''amy'' 9 k"
    by (simp add: test_payload_def)
  have g: "dict_get (test_payload ''amy'' 7) ''user_id'' \<noteq> JNone"
      "dict_get (test_payload ''amy'' 9) ''user_id'' \<noteq> JNone"
      "dict_get (test_payload ''amy'' 9) ''user_id'' = JInt 9"
      "dict_get [''sub'' \<mapsto> JStr ''amy''] ''user_id'' = JNone"
    by (simp_all add: test_payload_def dict_get_def)
  have 1: "get_current_user test_jwt auth_service 1000 ''tok-amy'' test_db
     = get_current_user test_jwt auth_service 1000 ''tok-amy-9'' test_db"
    using user_id_value_is_ignored [of test_jwt 1000 "''tok-amy''" auth_service
        "test_payload ''amy'' 7" "''tok-amy-9''" "test_payload ''amy'' 9" test_db amy,
        THEN conjunct1] d(1,2) k g(1,2)
    by blast
  have 2: "get_current_user test_jwt auth_service 1000 ''tok-amy'' test_db = Inr amy"
    by (simp add: get_current_user_def test_verify query_first_def test_db_def amy_def)
  have 3: "get_current_user test_jwt auth_service 1000 ''tok-noid'' test_db = Inl credentials_exception"
    using user_id_value_is_ignored [of test_jwt 1000 "''tok-noid''" auth_service
        "[''sub'' \<mapsto> JStr ''amy'']" "''tok-amy-9''" "test_payload ''amy'' 9" test_db amy,
        THEN conjunct2, THEN conjunct1] d(3) g(4)
    by blast
  have 4: "id_col amy = 7" by (simp add: amy_def)
  from 1 2 3 4 g(3) show ?thesis by simp
qed



section \<open>Login\<close>

text \<open>
  The outcomes of \<open>login_user\<close>, by what the lookup and bcrypt return.
\<close>

lemma login_user_cases:
  "(query_first (\<lambda>u. username u = form_username form_data) db = None
      \<longrightarrow> login_user lib bc form_data db utcnow =
            Inl (HTTPException 401 ''Incorrect username or password''
                   [(''WWW-Authenticate'', ''Bearer'')]))
   \<and> (\<forall>u. query_first (\<lambda>u. username u = form_username form_data) db = Some u
          \<and> verify_password bc u (form_password form_data) = Inr False
      \<longrightarrow> login_user lib bc form_data db utcnow =
            Inl (HTTPException 401 ''Incorrect username or password''
                   [(''WWW-Authenticate'', ''Bearer'')]))
   \<and> (\<forall>u e. query_first (\<lambda>u. username u = form_username form_data) db = Some u
          \<and> verify_password bc u (form_password form_data) = Inl e
      \<longrightarrow> login_user lib bc form_data db utcnow = Inl (UnhandledException e))
   \<and> (\<forall>u. query_first (\<lambda>u. username u = form_username form_data) db = Some u
          \<and> verify_password bc u (form_password form_data) = Inr True \<and> \<not> is_active u
      \<longrightarrow> login_user lib bc form_data db utcnow = Inl (HTTPException 400 ''Inactive user'' []))
   \<and> (\<forall>u. query_first (\<lambda>u. username u = form_username form_data) db = Some u
          \<and> verify_password bc u (form_password form_data) = Inr True \<and> is_active u
      \<longrightarrow> login_user lib bc form_data db utcnow =
            Inr \<lparr>tk_access_token =
                   jwt_encode lib
                     [''sub'' \<mapsto> JStr (username u), ''user_id'' \<mapsto> JInt (id_col u),
                      ''exp'' \<mapsto> JInt (utcnow + 30 * 60)]
                     SECRET_KEY ALGORITHM,
                 tk_token_type = ''bearer'', tk_user_id = id_col u,
                 tk_username = username u\<rparr>)"
  by (simp add: login_user_def create_access_token_def to_encode_def auth_service_def
      AuthService_init_def ACCESS_TOKEN_EXPIRE_MINUTES_def timedelta_minutes_def)

lemma test_password:
  "verify_password test_bcrypt amy ''Secret123!'' = Inr True"
  "verify_password test_bcrypt amy ''wrong'' = Inr False"
  "verify_password test_bcrypt bob ''Secret123!'' = Inr True"
  "verify_password test_bcrypt amy ''short'' = Inr False"
  "verify_password test_bcrypt amy ''NewSecret456'' = Inr False"
  "verify_password test_bcrypt amy long_password = Inl (ValueError ''password too long'')"
  by (simp_all add: verify_password_def test_bcrypt_def amy_def bob_def long_password_def)

lemma test_lookup:
  "query_first (\<lambda>u. username u = ''amy'') test_db = Some amy"
  "query_first (\<lambda>u. username u = ''bob'') test_db = Some bob"
  "query_first (\<lambda>u. username u = ''zoe'') test_db = None"
  by (simp_all add: query_first_def test_db_def amy_def bob_def)

text \<open>
  Claim C5, at a password of 73 characters under a bcrypt that refuses more than 72
  bytes. For the stored account \<^verbatim>\<open>amy\<close> the password check raises, outside any
  \<^verbatim>\<open>try\<close>, and the request ends in an unhandled exception (status 500); for the unknown
  username \<^verbatim>\<open>zoe\<close> the same password is answered 401
  \<^verbatim>\<open>Incorrect username or password\<close>. The claim gives 401 with the identical message in
  both cases.
\<close>

theorem login_user_overlong_password:
  "(\<exists>e. login_user test_jwt test_bcrypt
           \<lparr>form_username = ''amy'', form_password = long_password\<rparr> test_db 1000 =
         Inl (UnhandledException e))
   \<and> login_user test_jwt test_bcrypt
         \<lparr>form_username = ''zoe'', form_password = long_password\<rparr> test_db 1000 =
       Inl (HTTPException 401 ''Incorrect username or password''
              [(''WWW-Authenticate'', ''Bearer'')])
   \<and> query_first (\<lambda>u. username u = ''amy'') test_db = Some amy
   \<and> query_first (\<lambda>u. username u = ''zoe'') test_db = None
   \<and> length long_password = 73"
proof -
  have "length long_password = 73" by (simp add: long_password_def)
  then show ?thesis by (simp add: login_user_def test_lookup test_password)
qed

section \<open>Changing the password\<close>

text \<open>
  Claim C7, as the code has it. \<open>change_password\<close> succeeds exactly when bcrypt finds that
  the current password verifies against the stored hash and that the new password does not
  (this is the handler's test that the new password differs from the current one), the
  new password has at least 8 characters, and hashing the new password raises nothing. A
  success implies that the two passwords differ, and stores the hash of the new password.
  Each failed check answers 400 with its own message. Whenever the operation does not
  succeed, the table, and with it the stored hash, is left as it was.
\<close>

theorem change_password_outcomes:
  "((\<exists>msg. fst (change_password eng bc pd cu db salt) = Inr msg) \<longleftrightarrow>
      verify_password bc cu (current_password pd) = Inr True
      \<and> verify_password bc cu (new_password pd) = Inr False
      \<and> 8 \<le> length (new_password pd)
      \<and> (\<exists>h. hashpw bc (new_password pd) salt = Inr h))
   \<and> ((\<exists>msg. fst (change_password eng bc pd cu db salt) = Inr msg)
        \<longrightarrow> new_password pd \<noteq> current_password pd)
   \<and> (verify_password bc cu (current_password pd) = Inr False
        \<longrightarrow> change_password eng bc pd cu db salt =
              (Inl (HTTPException 400 ''Current password is incorrect'' []), db))
   \<and> (verify_password bc cu (current_password pd) = Inr True
        \<and> verify_password bc cu (new_password pd) = Inr True
        \<longrightarrow> change_password eng bc pd cu db salt =
              (Inl (HTTPException 400
                 ''New password must be different from current password'' []), db))
   \<and> (verify_password bc cu (current_password pd) = Inr True
        \<and> verify_password bc cu (new_password pd) = Inr False
        \<and> length (new_password pd) < 8
        \<longrightarrow> change_password eng bc pd cu db salt =
              (Inl (HTTPException 400
                 ''New password must be at least 8 characters long'' []), db))
   \<and> (\<forall>h. verify_password bc cu (current_password pd) = Inr True
        \<and> verify_password bc cu (new_password pd) = Inr False
        \<and> 8 \<le> length (new_password pd) \<and> hashpw bc (new_password pd) salt = Inr h
        \<longrightarrow> change_password eng bc pd cu db salt =
              (Inr ''Password updated successfully'',
               db_write db (cu\<lparr>hashed_password := h\<rparr>)))
   \<and> ((\<forall>msg. fst (change_password eng bc pd cu db salt) \<noteq> Inr msg)
        \<longrightarrow> snd (change_password eng bc pd cu db salt) = db)"
proof -
  have c: "db_commit eng db cu (cu\<lparr>hashed_password := h\<rparr>)
             = Inr (db_write db (cu\<lparr>hashed_password := h\<rparr>))" for h
    by (simp add: db_commit_def)
  show ?thesis
    by (auto simp: change_password_def set_password_def c
        split: sum.splits if_splits)
qed

theorem change_password_outcomes_counterexample:
  "verify_password test_bcrypt amy ''Secret123!'' = Inr True
   \<and> long_password \<noteq> ''Secret123!'' \<and> 8 \<le> length long_password
   \<and> (\<forall>msg. fst (change_password test_engine test_bcrypt
          \<lparr>current_password = ''Secret123!'', new_password = long_password\<rparr>
          amy test_db ''salt'') \<noteq> Inr msg)
   \<and> verify_password truncating_bcrypt cat (replicate 72 (CHR ''a'') @ ''b'') = Inr True
   \<and> replicate 72 (CHR ''a'') @ ''c'' \<noteq> replicate 72 (CHR ''a'') @ ''b''
   \<and> 8 \<le> length (replicate 72 (CHR ''a'') @ ''c'')
   \<and> fst (change_password test_engine truncating_bcrypt
          \<lparr>current_password = replicate 72 (CHR ''a'') @ ''b'',
           new_password = replicate 72 (CHR ''a'') @ ''c''\<rparr> cat [cat] ''salt'') =
       Inl (HTTPException 400 ''New password must be different from current password'' [])"
proof -
  have 1: "\<forall>msg. fst (change_password test_engine test_bcrypt
          \<lparr>current_password = ''Secret123!'', new_password = long_password\<rparr>
          amy test_db ''salt'') \<noteq> Inr msg"
    by (simp add: change_password_def test_password)
  have l: "long_password \<noteq> ''Secret123!''" "8 \<le> length long_password"
    by (auto simp: long_password_def dest: arg_cong [where f = length])
  have v: "verify_password truncating_bcrypt cat (replicate 72 (CHR ''a'') @ ''b'') = Inr True"
      "verify_password truncating_bcrypt cat (replicate 72 (CHR ''a'') @ ''c'') = Inr True"
    by (simp_all add: verify_password_def truncating_bcrypt_def cat_def)
  have 2: "fst (change_password test_engine truncating_bcrypt
          \<lparr>current_password = replicate 72 (CHR ''a'') @ ''b'',
           new_password = replicate 72 (CHR ''a'') @ ''c''\<rparr> cat [cat] ''salt'') =
       Inl (HTTPException 400 ''New password must be different from current password'' [])"
    by (simp add: change_password_def v)
  from 1 2 l v test_password(1) show ?thesis by simp
qed

theorem change_password_outcomes_witness:
  "change_password test_engine test_bcrypt
       \<lparr>current_password = ''wrong'', new_password = ''NewSecret456''\<rparr> amy test_db ''salt'' =
     (Inl (HTTPException 400 ''Current password is incorrect'' []), test_db)
   \<and> change_password test_engine test_bcrypt
       \<lparr>current_password = ''Secret123!'', new_password = ''Secret123!''\<rparr> amy test_db ''salt'' =
     (Inl (HTTPException 400 ''New password must be different from current password'' []),
      test_db)
   \<and> change_password test_engine test_bcrypt
       \<lparr>current_password = ''Secret123!'', new_password = ''short''\<rparr> amy test_db ''salt'' =
     (Inl (HTTPException 400 ''New password must be at least 8 characters long'' []), test_db)
   \<and> change_password test_engine test_bcrypt
       \<lparr>current_password = ''Secret123!'', new_password = ''NewSecret456''\<rparr> amy test_db ''salt'' =
     (Inr ''Password updated successfully'',
      [amy\<lparr>hashed_password := ''saltNewSecret456''\<rparr>, bob])
   \<and> ''NewSecret456'' \<noteq> ''Secret123!''
   \<and> snd (change_password test_engine test_bcrypt
       \<lparr>current_password = ''Secret123!'', new_password = long_password\<rparr> amy test_db ''salt'')
     = test_db"
proof -
  let ?a = "\<lparr>current_password = ''wrong'', new_password = ''NewSecret456''\<rparr>"
  let ?b = "\<lparr>current_password = ''Secret123!'', new_password = ''Secret123!''\<rparr>"
  let ?c = "\<lparr>current_password = ''Secret123!'', new_password = ''short''\<rparr>"
  let ?d = "\<lparr>current_password = ''Secret123!'', new_password = ''NewSecret456''\<rparr>"
  let ?e = "\<lparr>current_password = ''Secret123!'', new_password = long_password\<rparr>"
  note v = test_password
  have 1: "change_password test_engine test_bcrypt ?a amy test_db ''salt'' =
     (Inl (HTTPException 400 ''Current password is incorrect'' []), test_db)"
    using change_password_outcomes [of test_engine test_bcrypt ?a amy test_db "''salt''",
        THEN conjunct2, THEN conjunct2, THEN conjunct1] v(2) by simp
  have 2: "change_password test_engine test_bcrypt ?b amy test_db ''salt'' =
     (Inl (HTTPException 400 ''New password must be different from current password'' []),
      test_db)"
    using change_password_outcomes [of test_engine test_bcrypt ?b amy test_db "''salt''",
        THEN conjunct2, THEN conjunct2, THEN conjunct2, THEN conjunct1] v(1) by simp
  have 3: "change_password test_engine test_bcrypt ?c amy test_db ''salt'' =
     (Inl (HTTPException 400 ''New password must be at least 8 characters long'' []), test_db)"
    using change_password_outcomes [of test_engine test_bcrypt ?c amy test_db "''salt''",
        THEN conjunct2, THEN conjunct2, THEN conjunct2, THEN conjunct2, THEN conjunct1]
      v(1,4) by simp
  have h: "hashpw test_bcrypt ''NewSecret456'' ''salt'' = Inr ''saltNewSecret456''"
    by (simp add: test_bcrypt_def)
  have c: "db_write test_db (amy\<lparr>hashed_password := ''saltNewSecret456''\<rparr>)
             = [amy\<lparr>hashed_password := ''saltNewSecret456''\<rparr>, bob]"
    by (simp add: db_write_def test_db_def amy_def bob_def)
  have 4: "change_password test_engine test_bcrypt ?d amy test_db ''salt'' =
     (Inr ''Password updated successfully'',
      [amy\<lparr>hashed_password := ''saltNewSecret456''\<rparr>, bob])"
    using change_password_outcomes [of test_engine test_bcrypt ?d amy test_db "''salt''",
        THEN conjunct2, THEN conjunct2, THEN conjunct2, THEN conjunct2, THEN conjunct2,
        THEN conjunct1] v(1,5) h c by simp
  have 5: "''NewSecret456'' \<noteq> ''Secret123!''"
    using change_password_outcomes [of test_engine test_bcrypt ?d amy test_db "''salt''",
        THEN conjunct2, THEN conjunct1] 4 by simp
  have n: "\<forall>msg. fst (change_password test_engine test_bcrypt ?e amy test_db ''salt'')
             \<noteq> Inr msg"
    by (simp add: change_password_def test_password)
  have 6: "snd (change_password test_engine test_bcrypt ?e amy test_db ''salt'') = test_db"
    using change_password_outcomes [of test_engine test_bcrypt ?e amy test_db "''salt''",
        THEN conjunct2, THEN conjunct2, THEN conjunct2, THEN conjunct2, THEN conjunct2,
        THEN conjunct2] n by blast
  from 1 2 3 4 5 6 show ?thesis by blast
qed

section \<open>Listing the accounts\<close>




section \<open>Time to live\<close>

text \<open>
  The expiry that is handed to \<^verbatim>\<open>jwt.encode\<close>. With no duration given,
  \<open>create_access_token\<close> puts the absolute instant 30 minutes after the moment of issue
  under \<open>exp\<close>; \<open>create_user_tokens\<close> gives the access token that same 30 minutes and the
  refresh token 7 days. Whether a token is accepted before that instant and refused after it
  is decided inside \<^verbatim>\<open>jwt.decode\<close>, which compares \<open>exp\<close> with the clock.
\<close>

lemma token_ttl_defaults:
  "to_encode auth_service data None utcnow = data(''exp'' \<mapsto> JInt (utcnow + 30 * 60))"
  "create_access_token lib auth_service data None utcnow =
     jwt_encode lib (data(''exp'' \<mapsto> JInt (utcnow + 30 * 60))) SECRET_KEY ALGORITHM"
  "ut_access_token (create_user_tokens lib auth_service u utcnow) =
     jwt_encode lib
       [''sub'' \<mapsto> JStr (username u), ''user_id'' \<mapsto> JInt (id_col u),
        ''exp'' \<mapsto> JInt (utcnow + 30 * 60)] SECRET_KEY ALGORITHM"
  "ut_refresh_token (create_user_tokens lib auth_service u utcnow) =
     jwt_encode lib
       [''sub'' \<mapsto> JStr (username u), ''user_id'' \<mapsto> JInt (id_col u),
        ''type'' \<mapsto> JStr ''refresh'',
        ''exp'' \<mapsto> JInt (utcnow + 7 * 24 * 60 * 60)] SECRET_KEY ALGORITHM"
  by (simp_all add: create_user_tokens_def create_access_token_def to_encode_def
      auth_service_def AuthService_init_def ACCESS_TOKEN_EXPIRE_MINUTES_def SECRET_KEY_def
      ALGORITHM_def timedelta_minutes_def timedelta_days_def Let_def)

section \<open>Password hashing\<close>

text \<open>
  \<open>set_password\<close> replaces the stored hash with what \<^verbatim>\<open>bcrypt.hashpw\<close> returns for the
  password and the fresh salt and touches nothing else; \<open>verify_password\<close> is
  \<^verbatim>\<open>bcrypt.checkpw\<close> on the stored hash; what bcrypt raises, they raise. Whether a hash
  verifies exactly one password is a property of bcrypt, not of these wrappers.
\<close>

lemma password_wrappers:
  "verify_password bc self p = checkpw bc p (hashed_password self)"
  "hashpw bc q salt = Inr h \<Longrightarrow>
     set_password bc self q salt = Inr (self\<lparr>hashed_password := h\<rparr>)"
  "hashpw bc q salt = Inl e \<Longrightarrow> set_password bc self q salt = Inl e"
  "set_password bc self q salt = Inr u \<Longrightarrow>
     verify_password bc u p = checkpw bc p (hashed_password u)
     \<and> hashpw bc q salt = Inr (hashed_password u)"
  by (auto simp: verify_password_def set_password_def split: sum.splits)

section \<open>Registration\<close>

lemma register_user_success:
  assumes "register_user eng bc d db conc salt now = (Inr resp, db1)"
  shows "\<exists>row. db1 = (db @ conc) @ [row] \<and> username row = uc_username d
           \<and> email row = uc_email d"
  using assms
  by (auto simp: register_user_def db_insert_def set_password_def Let_def
      split: option.splits if_splits sum.splits)

lemma register_user_no_username_duplicate:
  assumes "query_first (\<lambda>u. username u = uc_username d) db = None"
  shows "fst (register_user eng bc d db conc salt now)
           \<noteq> Inl (HTTPException 400 ''Username already registered'' [])"
  using assms
  by (auto simp: register_user_def Let_def split: option.splits sum.splits prod.splits)

lemma query_first_last:
  "p row \<Longrightarrow> \<exists>r. query_first p (xs @ [row]) = Some r"
  by (cases "query_first p (xs @ [row])") (auto simp: query_first_None)

text \<open>
  Claim C3, as the code has it. After a successful registration, a second one with the
  same username answers 400 \<^verbatim>\<open>Username already registered\<close> whatever its email, and one
  with the same email answers 400 with one of the two duplicate messages; neither changes
  the table. When both existence queries pass and a row with the same username or email
  is committed by another request before the insert, the store's uniqueness error is
  answered as 500 \<^verbatim>\<open>Failed to create user: ...\<close>, and the table holds no row of this
  request.
\<close>

theorem register_user_duplicates:
  "(register_user eng bc d1 db conc salt now = (Inr resp, db1)
      \<and> uc_username d2 = uc_username d1
      \<longrightarrow> register_user eng bc d2 db1 conc2 salt2 now2 =
            (Inl (HTTPException 400 ''Username already registered'' []), db1 @ conc2))
   \<and> (register_user eng bc d1 db conc salt now = (Inr resp, db1) \<and> uc_email d2 = uc_email d1
      \<longrightarrow> (register_user eng bc d2 db1 conc2 salt2 now2 =
              (Inl (HTTPException 400 ''Username already registered'' []), db1 @ conc2)
           \<or> register_user eng bc d2 db1 conc2 salt2 now2 =
              (Inl (HTTPException 400 ''Email already registered'' []), db1 @ conc2)))
   \<and> (query_first (\<lambda>u. username u = uc_username d1) db = None
      \<and> query_first (\<lambda>u. email u = uc_email d1) db = None
      \<and> (\<exists>r \<in> set conc. username r = uc_username d1 \<or> email r = uc_email d1)
      \<longrightarrow> (\<exists>msg. register_user eng bc d1 db conc salt now =
              (Inl (HTTPException 500 (''Failed to create user: '' @ msg) []), db @ conc)))"
proof (intro conjI impI)
  assume a: "register_user eng bc d1 db conc salt now = (Inr resp, db1)
      \<and> uc_username d2 = uc_username d1"
  then obtain row where "db1 = (db @ conc) @ [row]" "username row = uc_username d2"
    using register_user_success by metis
  then obtain r where "query_first (\<lambda>u. username u = uc_username d2) db1 = Some r"
    using query_first_last [of "\<lambda>u. username u = uc_username d2" row "db @ conc"] by auto
  then show "register_user eng bc d2 db1 conc2 salt2 now2 =
      (Inl (HTTPException 400 ''Username already registered'' []), db1 @ conc2)"
    by (simp add: register_user_def)
next
  assume a: "register_user eng bc d1 db conc salt now = (Inr resp, db1)
      \<and> uc_email d2 = uc_email d1"
  then obtain row where "db1 = (db @ conc) @ [row]" "email row = uc_email d2"
    using register_user_success by metis
  then obtain r where "query_first (\<lambda>u. email u = uc_email d2) db1 = Some r"
    using query_first_last [of "\<lambda>u. email u = uc_email d2" row "db @ conc"] by auto
  then show "register_user eng bc d2 db1 conc2 salt2 now2 =
              (Inl (HTTPException 400 ''Username already registered'' []), db1 @ conc2)
           \<or> register_user eng bc d2 db1 conc2 salt2 now2 =
              (Inl (HTTPException 400 ''Email already registered'' []), db1 @ conc2)"
    by (simp add: register_user_def split: option.splits)
next
  assume a: "query_first (\<lambda>u. username u = uc_username d1) db = None
      \<and> query_first (\<lambda>u. email u = uc_email d1) db = None
      \<and> (\<exists>r \<in> set conc. username r = uc_username d1 \<or> email r = uc_email d1)"
  let ?u = "\<lparr>id_col = 0, username = uc_username d1, email = uc_email d1, hashed_password = [],
           full_name = uc_full_name d1, age = uc_age d1, weight = uc_weight d1,
           height = uc_height d1, activity_level = uc_activity_level d1,
           daily_calorie_goal = uc_daily_calorie_goal d1, created_at = now,
           is_active = True\<rparr>"
  have ins: "db_insert eng (db @ conc) (?u\<lparr>hashed_password := h\<rparr>)
               = Inl (write_exception eng (db @ conc) (?u\<lparr>hashed_password := h\<rparr>))" for h
    using a by (auto simp: db_insert_def)
  show "\<exists>msg. register_user eng bc d1 db conc salt now =
              (Inl (HTTPException 500 (''Failed to create user: '' @ msg) []), db @ conc)"
  proof (cases "hashpw bc (uc_password d1) salt")
    case (Inl e)
    with a show ?thesis by (simp add: register_user_def set_password_def Let_def)
  next
    case (Inr h)
    with a ins [of h] show ?thesis
      by (simp add: register_user_def set_password_def Let_def)
  qed
qed

theorem register_user_insert_race_counterexample:
  "(\<exists>msg. register_user test_engine test_bcrypt bob_request [amy] [bob] ''salt'' 5 =
       (Inl (HTTPException 500 (''Failed to create user: '' @ msg) []), [amy, bob]))
   \<and> (\<forall>m h. fst (register_user test_engine test_bcrypt bob_request [amy] [bob] ''salt'' 5)
          \<noteq> Inl (HTTPException 400 m h))
   \<and> query_first (\<lambda>u. username u = uc_username bob_request) [amy] = None
   \<and> query_first (\<lambda>u. email u = uc_email bob_request) [amy] = None"
  by (simp add: register_user_def bob_request_def query_first_def amy_def bob_def
      db_insert_def set_password_def test_bcrypt_def Let_def)

theorem register_user_duplicates_witness:
  "(\<exists>resp. fst (register_user test_engine test_bcrypt bob_request [amy] [] ''salt'' 5)
       = Inr resp)
   \<and> register_user test_engine test_bcrypt (bob_request\<lparr>uc_email := ''other@x.com''\<rparr>)
        (snd (register_user test_engine test_bcrypt bob_request [amy] [] ''salt'' 5)) []
        ''pepr'' 6 =
      (Inl (HTTPException 400 ''Username already registered'' []),
       snd (register_user test_engine test_bcrypt bob_request [amy] [] ''salt'' 5) @ [])
   \<and> register_user test_engine test_bcrypt (bob_request\<lparr>uc_username := ''rob''\<rparr>)
        (snd (register_user test_engine test_bcrypt bob_request [amy] [] ''salt'' 5)) []
        ''pepr'' 6 =
      (Inl (HTTPException 400 ''Email already registered'' []),
       snd (register_user test_engine test_bcrypt bob_request [amy] [] ''salt'' 5) @ [])
   \<and> (\<exists>msg. register_user test_engine test_bcrypt bob_request [amy] [bob] ''salt'' 5 =
        (Inl (HTTPException 500 (''Failed to create user: '' @ msg) []), [amy] @ [bob]))"
proof -
  let ?first = "register_user test_engine test_bcrypt bob_request [amy] [] ''salt'' 5"
  let ?row = "\<lparr>id_col = 8, username = ''bob'', email = ''b@x.com'',
      hashed_password = ''saltSecret123!'', full_name = None, age = None, weight = None,
      height = None, activity_level = Some ''moderate'', daily_calorie_goal = Some 2000,
      created_at = 5, is_active = True\<rparr>"
  have f: "?first = (Inr (from_attributes ?row), [amy, ?row])"
    by (simp add: register_user_def bob_request_def query_first_def amy_def
        db_insert_def set_password_def test_bcrypt_def next_id_def Let_def
        integer_fits_def sqlite_integer_def)
  then have f': "?first = (Inr (from_attributes ?row), snd ?first)" by simp
  have 0: "\<exists>resp. fst ?first = Inr resp" using f by simp
  note t = register_user_duplicates [of test_engine test_bcrypt bob_request "[amy]" "[]"
      "''salt''" 5 "from_attributes ?row" "snd ?first" _ "[]" "''pepr''" 6]
  have 1: "register_user test_engine test_bcrypt (bob_request\<lparr>uc_email := ''other@x.com''\<rparr>)
        (snd ?first) [] ''pepr'' 6 =
      (Inl (HTTPException 400 ''Username already registered'' []), snd ?first @ [])"
    using t [of "bob_request\<lparr>uc_email := ''other@x.com''\<rparr>", THEN conjunct1] f' by simp
  have d: "register_user test_engine test_bcrypt (bob_request\<lparr>uc_username := ''rob''\<rparr>)
        (snd ?first) [] ''pepr'' 6 =
      (Inl (HTTPException 400 ''Username already registered'' []), snd ?first @ [])
    \<or> register_user test_engine test_bcrypt (bob_request\<lparr>uc_username := ''rob''\<rparr>)
        (snd ?first) [] ''pepr'' 6 =
      (Inl (HTTPException 400 ''Email already registered'' []), snd ?first @ [])"
    using t [of "bob_request\<lparr>uc_username := ''rob''\<rparr>", THEN conjunct2, THEN conjunct1] f'
    by simp
  have n: "query_first (\<lambda>u. username u = uc_username (bob_request\<lparr>uc_username := ''rob''\<rparr>))
             (snd ?first) = None"
    unfolding f by (simp add: query_first_def amy_def)
  have 2: "register_user test_engine test_bcrypt (bob_request\<lparr>uc_username := ''rob''\<rparr>)
        (snd ?first) [] ''pepr'' 6 =
      (Inl (HTTPException 400 ''Email already registered'' []), snd ?first @ [])"
    using d register_user_no_username_duplicate
      [OF n, of test_engine test_bcrypt "[]" "''pepr''" 6]
    by auto
  have q: "query_first (\<lambda>u. username u = uc_username bob_request) [amy] = None"
      "query_first (\<lambda>u. email u = uc_email bob_request) [amy] = None"
      "\<exists>r \<in> set [bob]. username r = uc_username bob_request \<or> email r = uc_email bob_request"
    by (simp_all add: query_first_def bob_request_def amy_def bob_def)
  have 3: "\<exists>msg. register_user test_engine test_bcrypt bob_request [amy] [bob] ''salt'' 5 =
        (Inl (HTTPException 500 (''Failed to create user: '' @ msg) []), [amy] @ [bob])"
    using register_user_duplicates [of test_engine test_bcrypt bob_request "[amy]" "[bob]"
        "''salt''" 5 "from_attributes ?row" "snd ?first" bob_request "[]" "''pepr''" 6,
        THEN conjunct2, THEN conjunct2] q
    by blast
  from 0 1 2 3 show ?thesis by blast
qed

section \<open>Updating the profile\<close>

text \<open>
  What \<open>update_user_profile\<close> does with a request that fits \<open>UserCreate\<close>: a field of the
  request that is \<open>None\<close> leaves the stored value, any other overwrites it; the id,
  username, email, creation time and active flag are never assigned. The request model is
  the one of registration, so an absent \<^verbatim>\<open>activity_level\<close> or \<^verbatim>\<open>daily_calorie_goal\<close>
  arrives as \<^verbatim>\<open>"moderate"\<close> or \<^verbatim>\<open>2000\<close>, not as \<open>None\<close>.
\<close>

lemma update_fields_eq:
  "update_fields uu cu =
     cu\<lparr>full_name := (case uc_full_name uu of Some v \<Rightarrow> Some v | None \<Rightarrow> full_name cu),
        age := (case uc_age uu of Some v \<Rightarrow> Some v | None \<Rightarrow> age cu),
        weight := (case uc_weight uu of Some v \<Rightarrow> Some v | None \<Rightarrow> weight cu),
        height := (case uc_height uu of Some v \<Rightarrow> Some v | None \<Rightarrow> height cu),
        activity_level :=
          (case uc_activity_level uu of Some v \<Rightarrow> Some v | None \<Rightarrow> activity_level cu),
        daily_calorie_goal :=
          (case uc_daily_calorie_goal uu of Some v \<Rightarrow> Some v
           | None \<Rightarrow> daily_calorie_goal cu)\<rparr>"
  by (simp add: update_fields_def Let_def split: option.splits)

lemma update_user_profile_huge_age:
  "\<exists>msg. update_user_profile test_engine test_bcrypt huge_age_request amy test_db ''salt'' =
     (Inl (HTTPException 500 (''Failed to update profile: '' @ msg) []), test_db)"
  by (simp add: update_user_profile_def update_fields_eq huge_age_request_def db_commit_def
      integer_fits_def sqlite_integer_def amy_def Let_def)

text \<open>
  Claim C2, at the body \<^verbatim>\<open>{"age": 31}\<close> and the account with age 30, weight 70, activity
  level \<^verbatim>\<open>active\<close> and calorie goal 1800. The route declares its body as \<open>UserCreate\<close>,
  the model of registration: the body is refused (status 422) for its missing username,
  email and password, and nothing is stored. With those three added, the age becomes 31
  and the weight stays 70, but the absent activity level and calorie goal arrive as the
  model's defaults and overwrite the stored values with \<^verbatim>\<open>moderate\<close> and 2000, and the
  password is hashed again.
\<close>

theorem put_me_partial_body:
  "put_me test_engine test_bcrypt age_only_body amy test_db ''salt'' =
     (Inl RequestValidationError, test_db)
   \<and> b_age age_only_body = Val 31
   \<and> age amy = Some 30 \<and> weight amy = Some 70
   \<and> activity_level amy = Some ''active'' \<and> daily_calorie_goal amy = Some 1800
   \<and> parse_UserCreate age_update_body = Inr age_update_request
   \<and> b_weight age_update_body = Absent \<and> b_activity_level age_update_body = Absent
   \<and> b_daily_calorie_goal age_update_body = Absent
   \<and> (\<exists>resp db'. put_me test_engine test_bcrypt age_update_body amy test_db ''salt'' =
          (Inr resp, db')
        \<and> ur_age resp = Some 31 \<and> ur_weight resp = Some 70
        \<and> ur_activity_level resp = Some ''moderate''
        \<and> ur_daily_calorie_goal resp = Some 2000)"
proof -
  have 1: "put_me test_engine test_bcrypt age_only_body amy test_db ''salt'' =
     (Inl RequestValidationError, test_db)"
    by (simp add: put_me_def parse_UserCreate_def age_only_body_def)
  have p: "parse_UserCreate age_update_body = Inr age_update_request"
    by (simp add: parse_UserCreate_def age_update_body_def age_update_request_def
        optional_field_def)
  have h: "hashpw test_bcrypt ''Secret123!'' ''salt'' = Inr ''saltSecret123!''"
    by (simp add: test_bcrypt_def)
  have 2: "\<exists>resp db'. put_me test_engine test_bcrypt age_update_body amy test_db ''salt'' =
          (Inr resp, db')
        \<and> ur_age resp = Some 31 \<and> ur_weight resp = Some 70
        \<and> ur_activity_level resp = Some ''moderate''
        \<and> ur_daily_calorie_goal resp = Some 2000"
    by (simp add: put_me_def p update_user_profile_def update_fields_eq age_update_request_def
        set_password_def h db_commit_def integer_fits_def sqlite_integer_def
        from_attributes_def amy_def Let_def)
  have 3: "b_age age_only_body = Val 31" "age amy = Some 30" "weight amy = Some 70"
      "activity_level amy = Some ''active''" "daily_calorie_goal amy = Some 1800"
      "b_weight age_update_body = Absent" "b_activity_level age_update_body = Absent"
      "b_daily_calorie_goal age_update_body = Absent"
    by (simp_all add: age_only_body_def age_update_body_def amy_def)
  from 1 2 3 p show ?thesis by simp
qed

end
